theory Spec2Isabelle
  imports Complex_Main "HOL-Library.Char_ord" "HOL-Library.List_Lexorder" "HOL-Library.Multiset"
begin

section \<open>Python values\<close>

text \<open>
  The values that travel through the keyword arguments and the parameter dictionary of
  \<^verbatim>\<open>BinanceRestClient._request\<close>: \<^verbatim>\<open>None\<close>, booleans, unbounded integers, strings,
  dictionaries with string keys (insertion ordered, so association lists with distinct
  keys) and lists of \<^verbatim>\<open>(key, value)\<close> tuples, which is what \<^verbatim>\<open>_order_params\<close> returns.
  Strings are lists of 8-bit characters ordered by character code, as Python orders
  \<^verbatim>\<open>str\<close> by code point. Floats are not among the parameter values modelled here.
\<close>

datatype pyval =
    VNone
  | VBool bool
  | VInt int
  | VStr string
  | VDict "(string \<times> pyval) list"
  | VPairs "(string \<times> pyval) list"

type_synonym pydict = "(string \<times> pyval) list"

text \<open>Python truthiness (\<^verbatim>\<open>if x:\<close>, \<^verbatim>\<open>not x\<close>).\<close>

fun truthy :: "pyval \<Rightarrow> bool" where
  "truthy VNone = False"
| "truthy (VBool b) = b"
| "truthy (VInt i) = (i \<noteq> 0)"
| "truthy (VStr s) = (s \<noteq> [])"
| "truthy (VDict d) = (d \<noteq> [])"
| "truthy (VPairs ps) = (ps \<noteq> [])"

subsection \<open>Dictionary operations\<close>

text \<open>\<^verbatim>\<open>d[k] = v\<close>: an existing key keeps its position, a new key goes last.\<close>

fun dict_set :: "string \<Rightarrow> 'v \<Rightarrow> (string \<times> 'v) list \<Rightarrow> (string \<times> 'v) list" where
  "dict_set k v [] = [(k, v)]"
| "dict_set k v (p # ps) = (if fst p = k then (k, v) # ps else p # dict_set k v ps)"

text \<open>\<^verbatim>\<open>d.update(other)\<close>: the entries of \<open>other\<close> are stored one by one, in its order.\<close>

fun dict_update :: "pydict \<Rightarrow> pydict \<Rightarrow> pydict" where
  "dict_update [] d = d"
| "dict_update (p # ps) d = dict_update ps (dict_set (fst p) (snd p) d)"

text \<open>\<^verbatim>\<open>del d[k]\<close> and \<^verbatim>\<open>d.pop(k)\<close> for a key that is present.\<close>

definition dict_del :: "string \<Rightarrow> pydict \<Rightarrow> pydict" where
  "dict_del k d = filter (\<lambda>p. fst p \<noteq> k) d"

subsection \<open>String conversion\<close>

fun show_nat :: "nat \<Rightarrow> string" where
  "show_nat n =
     (if n < 10 then [''0123456789'' ! n]
      else show_nat (n div 10) @ [''0123456789'' ! (n mod 10)])"

definition show_int :: "int \<Rightarrow> string" where
  "show_int i = (if i < 0 then CHR ''-'' # show_nat (nat (- i)) else show_nat (nat i))"

text \<open>\<^verbatim>\<open>sep.join(xs)\<close>.\<close>

fun join :: "string \<Rightarrow> string list \<Rightarrow> string" where
  "join sep [] = []"
| "join sep [x] = x"
| "join sep (x # y # ys) = x @ sep @ join sep (y # ys)"

text \<open>
  \<^verbatim>\<open>repr(v)\<close>. A string is put between single quotes; the escaping that \<^verbatim>\<open>repr\<close>
  applies to quotes, backslashes and control characters inside a string is not modelled.
  Only a dictionary or a list that is itself a parameter value is rendered through it.
\<close>

primrec py_repr :: "pyval \<Rightarrow> string" where
  "py_repr VNone = ''None''"
| "py_repr (VBool b) = (if b then ''True'' else ''False'')"
| "py_repr (VInt i) = show_int i"
| "py_repr (VStr s) = [CHR 0x27] @ s @ [CHR 0x27]"
| "py_repr (VDict d) =
     ''{'' @ join '', '' (map (\<lambda>p. [CHR 0x27] @ fst p @ [CHR 0x27] @ '': '' @ snd p)
                              (map (map_prod id py_repr) d)) @ ''}''"
| "py_repr (VPairs ps) =
     ''['' @ join '', '' (map (\<lambda>p. ''('' @ [CHR 0x27] @ fst p @ [CHR 0x27] @ '', '' @ snd p @ '')'')
                              (map (map_prod id py_repr) ps)) @ '']''"

text \<open>\<^verbatim>\<open>str(v)\<close>, which is what \<^verbatim>\<open>"{}".format(v)\<close> and \<^verbatim>\<open>"%s" % v\<close> insert.\<close>

definition py_str :: "pyval \<Rightarrow> string" where
  "py_str v = (case v of VStr s \<Rightarrow> s | _ \<Rightarrow> py_repr v)"

section \<open>Parameter canonicalizer and signer (client.py)\<close>

text \<open>
  \<^verbatim>\<open>BinanceRestClient._order_params\<close>: the entries other than \<^verbatim>\<open>signature\<close> in
  insertion order, sorted by key with Python's stable sort, and the \<^verbatim>\<open>signature\<close>
  entry appended when the dictionary has one.
\<close>

definition order_params :: "pydict \<Rightarrow> pydict" where
  "order_params data =
     (let params = filter (\<lambda>p. fst p \<noteq> ''signature'') data;
          has_signature = (''signature'' \<in> set (map fst data))
      in sort_key fst params @
         (if has_signature
          then (case map_of data ''signature'' of
                  Some v \<Rightarrow> [(''signature'', v)]
                | None \<Rightarrow> [])
          else []))"

text \<open>
  The rendering \<^verbatim>\<open>"&".join("{}={}".format(d[0], d[1]) for d in order_data)\<close> used for
  the signed string, and with \<^verbatim>\<open>%s=%s\<close> for the transmitted query string.
\<close>

definition render :: "pydict \<Rightarrow> string" where
  "render ps = join ''&'' (map (\<lambda>p. fst p @ ''='' @ py_str (snd p)) ps)"


section \<open>Decoded JSON and responses\<close>

text \<open>
  What \<^verbatim>\<open>response.json()\<close> returns. A JSON number is kept as an exact rational: the
  binary rounding of Python's \<^verbatim>\<open>float\<close> is not modelled, and neither are \<^verbatim>\<open>nan\<close> and
  \<^verbatim>\<open>inf\<close>.
\<close>

datatype json =
    JNull
  | JBool bool
  | JNum rat
  | JStr string
  | JArr "json list"
  | JObj "(string \<times> json) list"

text \<open>
  The fields of a \<^verbatim>\<open>requests\<close> response that the client reads. \<open>json_body\<close> is the
  result of \<^verbatim>\<open>response.json()\<close>, with \<open>None\<close> when decoding raises \<^verbatim>\<open>ValueError\<close>.
\<close>

record response =
  status_code :: int
  text_body :: string
  json_body :: "json option"

text \<open>
  The exceptions of the client and of the fetcher. The module
  \<^verbatim>\<open>binanceRestClient.exceptions\<close> is not part of the sources: an exception raised from it
  is the constructor applied to the argument the source passes, and constructing it is
  taken not to raise.
\<close>

datatype error =
    AlreadyStoppedError
  | BinanceAPIException_msg string
  | BinanceAPIException response
  | BinanceRequestException string
  | TransportError
  | KeyError string
  | ValueError string
  | TypeError
  | AttributeError
  | IndexError
  | ZeroDivisionError
  | OverflowError

text \<open>Sequencing of calls that may raise.\<close>

definition bindE :: "error + 'a \<Rightarrow> ('a \<Rightarrow> error + 'b) \<Rightarrow> error + 'b" where
  "bindE m f = (case m of Inl e \<Rightarrow> Inl e | Inr x \<Rightarrow> f x)"

fun mapE :: "('a \<Rightarrow> error + 'b) \<Rightarrow> 'a list \<Rightarrow> error + 'b list" where
  "mapE f [] = Inr []"
| "mapE f (x # xs) = bindE (f x) (\<lambda>y. bindE (mapE f xs) (\<lambda>ys. Inr (y # ys)))"

section \<open>Request dispatcher (client.py)\<close>

record client =
  api_key :: pyval
  api_secret :: pyval
  requests_params :: "pydict option"
  sigterm :: bool
  ts_offset :: int
  session_api_key :: string

text \<open>
  \<^verbatim>\<open>_init_session\<close>: a fresh session whose \<^verbatim>\<open>X-MBX-APIKEY\<close> header is
  \<^verbatim>\<open>str(self.api_key)\<close>. The session is represented by that header.
\<close>

definition init_session :: "client \<Rightarrow> client" where
  "init_session self = self\<lparr>session_api_key := py_str (api_key self)\<rparr>"

text \<open>
  \<^verbatim>\<open>_generate_signature\<close>. The keyed hash \<^verbatim>\<open>hmac.new(secret, msg, sha256).hexdigest()\<close>
  is the parameter \<open>mac\<close>, applied to the secret and to the signed string. A secret that
  is truthy but not a string has no \<^verbatim>\<open>encode\<close> method.
\<close>

definition generate_signature ::
  "(string \<Rightarrow> string \<Rightarrow> string) \<Rightarrow> client \<Rightarrow> pydict \<Rightarrow> error + string" where
  "generate_signature mac self data =
     (if \<not> truthy (api_secret self) then Inl (BinanceAPIException_msg ''Api secret not configured'')
      else let order_data = order_params data;
               query_string = render order_data
           in (case api_secret self of
                 VStr secret \<Rightarrow> Inr (mac secret query_string)
               | _ \<Rightarrow> Inl AttributeError))"

text \<open>
  \<^verbatim>\<open>_handle_response\<close>, on the response that \<^verbatim>\<open>_request\<close> has just stored.
\<close>

definition handle_response :: "response \<Rightarrow> bool \<Rightarrow> error + json" where
  "handle_response resp throw_exception =
     (if throw_exception \<and> \<not> (200 \<le> status_code resp \<and> status_code resp < 300)
      then Inl (BinanceAPIException resp)
      else (case json_body resp of
              Some j \<Rightarrow> Inr j
            | None \<Rightarrow> Inl (BinanceRequestException (''Invalid Response: '' @ text_body resp))))"

text \<open>
  The first lines of \<^verbatim>\<open>_request\<close>: \<^verbatim>\<open>api_key\<close> is popped first, and when popping
  \<^verbatim>\<open>api_secret\<close> raises \<^verbatim>\<open>KeyError\<close> both are \<^verbatim>\<open>None\<close> (and a popped \<^verbatim>\<open>api_key\<close> stays
  removed).
\<close>

definition pop_credentials :: "pydict \<Rightarrow> pyval \<times> pyval \<times> pydict" where
  "pop_credentials kwargs =
     (case map_of kwargs ''api_key'' of
        None \<Rightarrow> (VNone, VNone, kwargs)
      | Some k \<Rightarrow>
          (let kwargs1 = dict_del ''api_key'' kwargs
           in (case map_of kwargs1 ''api_secret'' of
                 None \<Rightarrow> (VNone, VNone, kwargs1)
               | Some s \<Rightarrow> (k, s, dict_del ''api_secret'' kwargs1))))"

text \<open>
  \<^verbatim>\<open>kwargs.update(kwargs["data"].pop("requests_params"))\<close>: the popped value is merged
  when it is a dictionary or a list of pairs; an empty string is an empty iterable,
  another string raises \<^verbatim>\<open>ValueError\<close>, anything else \<^verbatim>\<open>TypeError\<close>.
\<close>

definition update_from :: "pyval \<Rightarrow> pydict \<Rightarrow> error + pydict" where
  "update_from rp kwargs =
     (case rp of
        VDict r \<Rightarrow> Inr (dict_update r kwargs)
      | VPairs r \<Rightarrow> Inr (dict_update r kwargs)
      | VStr s \<Rightarrow> (if s = [] then Inr kwargs else Inl (ValueError ''dictionary update sequence''))
      | _ \<Rightarrow> Inl TypeError)"

text \<open>Whether \<^verbatim>\<open>update\<close> with this value rebinds the key \<open>k\<close>.\<close>

definition rebinds :: "pyval \<Rightarrow> string \<Rightarrow> bool" where
  "rebinds rp k = (case rp of VDict r \<Rightarrow> k \<in> set (map fst r) | VPairs r \<Rightarrow> k \<in> set (map fst r) | _ \<Rightarrow> False)"


text \<open>
  \<^verbatim>\<open>_request\<close> is modelled in the stages of its body. The local variable \<^verbatim>\<open>data\<close> and
  \<^verbatim>\<open>kwargs["data"]\<close> start as one object; they part when the merged \<^verbatim>\<open>requests_params\<close>
  rebind \<^verbatim>\<open>kwargs["data"]\<close>, and when \<^verbatim>\<open>kwargs["data"]\<close> is replaced by the ordered list.
  Each stage therefore carries the keyword arguments, the value of the local \<^verbatim>\<open>data\<close>
  and whether the two are still the same object.

  Lines 197 to 204: read \<^verbatim>\<open>data\<close>, and merge a \<^verbatim>\<open>requests_params\<close> entry found in it.
\<close>

definition merge_requests_params :: "pyval \<Rightarrow> pydict \<Rightarrow> error + (pydict \<times> pyval \<times> bool)" where
  "merge_requests_params data kwargs =
     (case data of
        VDict d \<Rightarrow>
          (if d \<noteq> [] then
             (case map_of d ''requests_params'' of
                None \<Rightarrow> Inr (kwargs, data, True)
              | Some rp \<Rightarrow>
                  (let d1 = dict_del ''requests_params'' d;
                       kwargs1 = dict_set ''data'' (VDict d1) kwargs
                   in bindE (update_from rp kwargs1)
                        (\<lambda>kwargs2. Inr (kwargs2, VDict d1, \<not> rebinds rp ''data''))))
           else Inr (kwargs, data, True))
      | _ \<Rightarrow> Inr (kwargs, data, True))"

text \<open>
  Lines 206 to 209: the timestamp and the signature are stored into the dictionary
  \<^verbatim>\<open>kwargs["data"]\<close>; the signature is computed after the timestamp is stored and before
  anything is removed. \<open>now_ms\<close> is the value of \<^verbatim>\<open>currentTsMillis()\<close>.
\<close>

definition sign_data ::
  "(string \<Rightarrow> string \<Rightarrow> string) \<Rightarrow> int \<Rightarrow> client \<Rightarrow> pydict \<Rightarrow> pyval \<Rightarrow> bool
     \<Rightarrow> error + (pydict \<times> pyval)" where
  "sign_data mac now_ms self kwargs data aliased =
     (case map_of kwargs ''data'' of
        None \<Rightarrow> Inl (KeyError ''data'')
      | Some (VDict d) \<Rightarrow>
          (let d1 = dict_set ''timestamp'' (VInt (now_ms + ts_offset self)) d
           in bindE (generate_signature mac self d1)
                (\<lambda>sig. let d2 = dict_set ''signature'' (VStr sig) d1
                        in Inr (dict_set ''data'' (VDict d2) kwargs,
                                if aliased then VDict d2 else data)))
      | Some _ \<Rightarrow> Inl TypeError)"

text \<open>
  Lines 212 to 220: \<^verbatim>\<open>kwargs["data"]\<close> becomes the ordered list, and then the entries
  whose value is \<^verbatim>\<open>None\<close> are deleted from that list.
\<close>

definition order_data :: "pydict \<Rightarrow> error + pydict" where
  "order_data kwargs =
     (case map_of kwargs ''data'' of
        None \<Rightarrow> Inl (KeyError ''data'')
      | Some (VDict d) \<Rightarrow>
          Inr (dict_set ''data'' (VPairs (filter (\<lambda>p. snd p \<noteq> VNone) (order_params d))) kwargs)
      | Some _ \<Rightarrow> Inl AttributeError)"

text \<open>
  Lines 223 to 227: for a \<^verbatim>\<open>get\<close> (or when forced) the list is rendered into
  \<^verbatim>\<open>kwargs["params"]\<close> and \<^verbatim>\<open>kwargs["data"]\<close> is deleted.
\<close>

definition to_params :: "pydict \<Rightarrow> error + pydict" where
  "to_params kwargs =
     (case map_of kwargs ''data'' of
        Some (VPairs ps) \<Rightarrow> Inr (dict_del ''data'' (dict_set ''params'' (VStr (render ps)) kwargs))
      | Some _ \<Rightarrow> Inl TypeError
      | None \<Rightarrow> Inl (KeyError ''data''))"

text \<open>
  \<^verbatim>\<open>_request\<close> up to the dispatch at line 229. The result is the client after the call
  and the keyword arguments handed to \<^verbatim>\<open>session.<method>(uri, **kwargs)\<close>. When the
  standing \<^verbatim>\<open>requests_params\<close> hold a \<^verbatim>\<open>data\<close> entry, that dictionary is the object the
  call mutates, so the client keeps its final value.
\<close>

definition request_prepare ::
  "(string \<Rightarrow> string \<Rightarrow> string) \<Rightarrow> int \<Rightarrow> client \<Rightarrow> string \<Rightarrow> bool \<Rightarrow> bool \<Rightarrow> pydict
     \<Rightarrow> error + (client \<times> pydict)" where
  "request_prepare mac now_ms self method signed force_params kwargs0 =
     (if sigterm self then Inl AlreadyStoppedError
      else
        (case pop_credentials kwargs0 of
           (k, s, kwargs1) \<Rightarrow>
             (let self1 = (if truthy k \<and> truthy s
                           then init_session (self\<lparr>api_key := k, api_secret := s\<rparr>)
                           else self);
                  kwargs2 = dict_set ''timeout'' (VInt 10) kwargs1;
                  standing = (case requests_params self1 of Some rp \<Rightarrow> rp | None \<Rightarrow> []);
                  kwargs3 = (if standing \<noteq> [] then dict_update standing kwargs2 else kwargs2);
                  data = (case map_of kwargs3 ''data'' of Some d \<Rightarrow> d | None \<Rightarrow> VNone)
              in bindE (merge_requests_params data kwargs3)
                   (\<lambda>(kwargs4, data1, aliased).
                 bindE (if signed then sign_data mac now_ms self1 kwargs4 data1 aliased
                        else Inr (kwargs4, data1))
                   (\<lambda>(kwargs5, data2).
                 bindE (if truthy data2 then order_data kwargs5 else Inr kwargs5)
                   (\<lambda>kwargs6.
                 bindE (if truthy data2 \<and> (method = ''get'' \<or> force_params)
                        then to_params kwargs6 else Inr kwargs6)
                   (\<lambda>kwargs7.
                 Inr (if ''data'' \<in> set (map fst standing)
                      then self1\<lparr>requests_params := Some (dict_set ''data'' data2 standing)\<rparr>
                      else self1,
                      kwargs7))))))))"

text \<open>
  \<^verbatim>\<open>_request\<close>: the dispatch itself is the parameter \<open>http\<close> (method, uri, keyword
  arguments), which may raise; the response is stored and classified.
\<close>

definition request ::
  "(string \<Rightarrow> string \<Rightarrow> string) \<Rightarrow> int \<Rightarrow> (string \<Rightarrow> string \<Rightarrow> pydict \<Rightarrow> error + response)
     \<Rightarrow> client \<Rightarrow> string \<Rightarrow> string \<Rightarrow> bool \<Rightarrow> bool \<Rightarrow> bool \<Rightarrow> pydict
     \<Rightarrow> error + (client \<times> response \<times> json)" where
  "request mac now_ms http self method uri signed force_params throw_exception kwargs =
     bindE (request_prepare mac now_ms self method signed force_params kwargs)
       (\<lambda>(self1, kwargs1).
     bindE (http method uri kwargs1)
       (\<lambda>resp.
     bindE (handle_response resp throw_exception)
       (\<lambda>j. Inr (self1, resp, j))))"


section \<open>Python operations on decoded values\<close>

fun json_truthy :: "json \<Rightarrow> bool" where
  "json_truthy JNull = False"
| "json_truthy (JBool b) = b"
| "json_truthy (JNum q) = (q \<noteq> 0)"
| "json_truthy (JStr s) = (s \<noteq> [])"
| "json_truthy (JArr xs) = (xs \<noteq> [])"
| "json_truthy (JObj kvs) = (kvs \<noteq> [])"

text \<open>\<^verbatim>\<open>len(v)\<close>.\<close>

fun py_len :: "json \<Rightarrow> error + nat" where
  "py_len (JStr s) = Inr (length s)"
| "py_len (JArr xs) = Inr (length xs)"
| "py_len (JObj kvs) = Inr (length kvs)"
| "py_len _ = Inl TypeError"

text \<open>
  \<^verbatim>\<open>v[i]\<close> for an index \<open>i \<ge> 0\<close>. The keys of a decoded object are strings, so an
  integer key is never found.
\<close>

fun py_getitem :: "json \<Rightarrow> nat \<Rightarrow> error + json" where
  "py_getitem (JArr xs) i = (if i < length xs then Inr (xs ! i) else Inl IndexError)"
| "py_getitem (JStr s) i = (if i < length s then Inr (JStr [s ! i]) else Inl IndexError)"
| "py_getitem (JObj kvs) i = Inl (KeyError (show_nat i))"
| "py_getitem _ i = Inl TypeError"

text \<open>\<^verbatim>\<open>for r in v\<close>: the elements that the iteration yields.\<close>

fun py_iter :: "json \<Rightarrow> error + json list" where
  "py_iter (JArr xs) = Inr xs"
| "py_iter (JStr s) = Inr (map (\<lambda>c. JStr [c]) s)"
| "py_iter (JObj kvs) = Inr (map (\<lambda>kv. JStr (fst kv)) kvs)"
| "py_iter _ = Inl TypeError"

text \<open>\<^verbatim>\<open>v[:n]\<close>; slicing an object raises.\<close>

fun py_slice_to :: "json \<Rightarrow> nat \<Rightarrow> error + json" where
  "py_slice_to (JArr xs) n = Inr (JArr (take n xs))"
| "py_slice_to (JStr s) n = Inr (JStr (take n s))"
| "py_slice_to _ n = Inl TypeError"

text \<open>
  \<^verbatim>\<open>float(v)\<close>. The parser of float literals is the parameter \<open>parse_float\<close>, with
  \<open>None\<close> where \<^verbatim>\<open>float\<close> raises \<^verbatim>\<open>ValueError\<close>.
\<close>

fun py_float :: "(string \<Rightarrow> rat option) \<Rightarrow> json \<Rightarrow> error + rat" where
  "py_float parse_float (JNum q) = Inr q"
| "py_float parse_float (JBool b) = Inr (if b then 1 else 0)"
| "py_float parse_float (JStr s) =
     (case parse_float s of Some q \<Rightarrow> Inr q | None \<Rightarrow> Inl (ValueError ''could not convert string to float''))"
| "py_float parse_float _ = Inl TypeError"

text \<open>The operands of \<^verbatim>\<open>/\<close>: numbers, among them the booleans.\<close>

fun num_of :: "json \<Rightarrow> rat option" where
  "num_of (JNum q) = Some q"
| "num_of (JBool b) = Some (if b then 1 else 0)"
| "num_of _ = None"

definition py_truediv :: "json \<Rightarrow> json \<Rightarrow> error + rat" where
  "py_truediv a b =
     (case (num_of a, num_of b) of
        (Some x, Some y) \<Rightarrow> (if y = 0 then Inl ZeroDivisionError else Inr (x / y))
      | _ \<Rightarrow> Inl TypeError)"

text \<open>
  \<^verbatim>\<open>round(x, 9)\<close> in exact arithmetic: the nearest multiple of \<open>10\<^sup>-\<^sup>9\<close>, a tie going
  to the even one.
\<close>

definition round_half_even :: "rat \<Rightarrow> int" where
  "round_half_even x =
     (let f = \<lfloor>x\<rfloor>; d = x - of_int f
      in if d < 1 / 2 then f else if 1 / 2 < d then f + 1 else if even f then f else f + 1)"

definition round9 :: "rat \<Rightarrow> rat" where
  "round9 x = of_int (round_half_even (x * 10 ^ 9)) / 10 ^ 9"

text \<open>\<^verbatim>\<open>base in k\<close> for strings.\<close>

fun starts_with :: "string \<Rightarrow> string \<Rightarrow> bool" where
  "starts_with [] ys = True"
| "starts_with (x # xs) [] = False"
| "starts_with (x # xs) (y # ys) = (x = y \<and> starts_with xs ys)"

fun is_substring :: "string \<Rightarrow> string \<Rightarrow> bool" where
  "is_substring xs [] = (xs = [])"
| "is_substring xs (y # ys) = (starts_with xs (y # ys) \<or> is_substring xs ys)"


section \<open>Batch series fetcher (async_tools.py)\<close>

type_synonym series_map = "(string \<times> json) list"

record fetcher =
  pairs :: "string list"
  interval :: string
  fromTime :: "int option"
  toTime :: "int option"
  n_mins :: "rat option"
  pair_retries :: int
  pair_timeout :: "int option"
  init_backoff :: rat
  responses :: series_map


definition given_rat :: "rat option \<Rightarrow> bool" where
  "given_rat x = (case x of None \<Rightarrow> False | Some q \<Rightarrow> q \<noteq> 0)"


text \<open>\<^verbatim>\<open>create_klines_urls\<close>; \<^verbatim>\<open>p.replace("-", "")\<close> drops every separator.\<close>

definition base_url :: string where
  "base_url = ''https://api.binance.com/api/v3/klines''"

definition create_klines_urls :: "fetcher \<Rightarrow> int \<Rightarrow> int \<Rightarrow> string list" where
  "create_klines_urls self start end_t =
     map (\<lambda>p. base_url @ ''?symbol='' @ p @ ''&interval='' @ interval self @
               ''&startTime='' @ show_int start @ ''&endTime='' @ show_int end_t)
         (map (filter (\<lambda>c. c \<noteq> CHR ''-'')) (pairs self))"

text \<open>
  Times. A \<^verbatim>\<open>datetime\<close> is its number of microseconds since the epoch, between year 1
  and year 9999; arithmetic that leaves that range raises \<^verbatim>\<open>OverflowError\<close>.
  \<^verbatim>\<open>timedelta(minutes=n)\<close> has the nearest whole number of microseconds and at most
  999999999 days. \<^verbatim>\<open>int(dt.timestamp() * 1000)\<close> truncates towards zero; the rounding of
  the intermediate \<^verbatim>\<open>float\<close> is not modelled.
\<close>

definition dt_sub :: "int \<Rightarrow> int \<Rightarrow> error + int" where
  "dt_sub t d =
     (if - 62135596800000000 \<le> t - d \<and> t - d \<le> 253402300799999999 then Inr (t - d)
      else Inl OverflowError)"

definition timedelta_minutes :: "rat \<Rightarrow> error + int" where
  "timedelta_minutes n =
     (let us = round_half_even (n * 60000000)
      in if - 86399999913600000000 \<le> us \<and> us \<le> 86399999999999999999 then Inr us
         else Inl OverflowError)"

definition timestamp_ms :: "int \<Rightarrow> int" where
  "timestamp_ms us = (if 0 \<le> us then us div 1000 else - ((- us) div 1000))"

text \<open>
  \<^verbatim>\<open>get_backwards_range\<close>; \<open>now_us\<close> is \<^verbatim>\<open>datetime.now(tz=timezone.utc)\<close>. The result is
  \<^verbatim>\<open>(fromTime, toTime)\<close>.
\<close>

definition get_backwards_range :: "int \<Rightarrow> fetcher \<Rightarrow> error + (int \<times> int)" where
  "get_backwards_range now_us self =
     (if \<not> given_rat (n_mins self) then
        (case (fromTime self, toTime self) of
           (Some f, Some t) \<Rightarrow>
             (if f \<noteq> 0 \<and> t \<noteq> 0 then Inr (f, t)
              else Inl (ValueError ''fromTime and toTime or n_mins are required.''))
         | _ \<Rightarrow> Inl (ValueError ''fromTime and toTime or n_mins are required.''))
      else
        bindE (dt_sub now_us 500000)
          (\<lambda>utcNow. let to_t = timestamp_ms utcNow
           in bindE (timedelta_minutes (case n_mins self of Some n \<Rightarrow> n | None \<Rightarrow> 0))
                (\<lambda>td. bindE (dt_sub utcNow td)
                  (\<lambda>from_dt. Inr (timestamp_ms from_dt, to_t)))))"

text \<open>
  One attempt of \<^verbatim>\<open>get_single_pair\<close> ends in \<^verbatim>\<open>asyncio.TimeoutError\<close>, in another
  exception, or with the decoded body. The events of a task are its attempts and its
  sleeps, in the order they happen.
\<close>

datatype outcome = Timeout | Failed | Decoded json

datatype event = Attempt nat | Sleep rat

text \<open>
  The \<^verbatim>\<open>for attempt in range(self.pair_retries)\<close> loop with its \<^verbatim>\<open>else\<close> clause, over the
  attempts still to run: the result is the events and the value of \<^verbatim>\<open>resp\<close>.
\<close>

fun retry_loop :: "rat \<Rightarrow> (nat \<Rightarrow> outcome) \<Rightarrow> nat list \<Rightarrow> event list \<times> json" where
  "retry_loop backoff oc [] = ([], JArr [])"
| "retry_loop backoff oc (attempt # rest) =
     (case oc attempt of
        Decoded resp \<Rightarrow> ([Attempt attempt], resp)
      | Failed \<Rightarrow> ([Attempt attempt], JArr [])
      | Timeout \<Rightarrow>
          (case retry_loop backoff oc rest of
             (evs, resp) \<Rightarrow> (Attempt attempt # Sleep (backoff * 2 ^ attempt) # evs, resp)))"

text \<open>Lines 99 to 105: an object counts as empty, and a truthy body is cut to five columns.\<close>

definition keep_columns :: "(string \<Rightarrow> rat option) \<Rightarrow> json \<Rightarrow> error + json" where
  "keep_columns parse_float r =
     bindE (py_getitem r 1) (\<lambda>c1. bindE (py_float parse_float c1) (\<lambda>op.
     bindE (py_getitem r 2) (\<lambda>c2. bindE (py_float parse_float c2) (\<lambda>hi.
     bindE (py_getitem r 3) (\<lambda>c3. bindE (py_float parse_float c3) (\<lambda>lo.
     bindE (py_getitem r 4) (\<lambda>c4. bindE (py_float parse_float c4) (\<lambda>cl.
     bindE (py_getitem r 6) (\<lambda>c6.
     Inr (JArr [JNum op, JNum hi, JNum lo, JNum cl, c6]))))))))))"

definition normalise :: "(string \<Rightarrow> rat option) \<Rightarrow> json \<Rightarrow> error + json" where
  "normalise parse_float resp =
     (let resp1 = (case resp of JObj kvs \<Rightarrow> JArr [] | _ \<Rightarrow> resp)
      in if json_truthy resp1
         then bindE (py_iter resp1)
                (\<lambda>rs. bindE (mapE (keep_columns parse_float) rs) (\<lambda>rows. Inr (JArr rows)))
         else Inr resp1)"

text \<open>
  \<^verbatim>\<open>get_single_pair\<close>: \<open>oc\<close> gives the outcome of each attempt on the task's URL. The
  result is the events of the task and, unless the task raises, \<^verbatim>\<open>self.responses\<close> with
  the pair's entry stored.
\<close>

definition get_single_pair ::
  "(nat \<Rightarrow> outcome) \<Rightarrow> (string \<Rightarrow> rat option) \<Rightarrow> fetcher \<Rightarrow> string \<Rightarrow> series_map
     \<Rightarrow> event list \<times> (error + series_map)" where
  "get_single_pair oc parse_float self pair rs =
     (case retry_loop (init_backoff self) oc [0..<nat (pair_retries self)] of
        (evs, resp) \<Rightarrow>
          (evs, bindE (normalise parse_float resp) (\<lambda>resp1. Inr (dict_set pair resp1 rs))))"

text \<open>
  \<^verbatim>\<open>fetch_pairs_klines\<close>. The network is \<open>env\<close>: the outcome of each attempt of task
  \<open>i\<close> on its URL. The tasks run concurrently and each stores its own entry when it
  ends, so the run is the tasks taken in the order they end, which \<open>sched\<close> chooses;
  \<^verbatim>\<open>asyncio.gather\<close> raises the first exception that a task raises.
\<close>

fun run_tasks ::
  "(nat \<Rightarrow> string \<Rightarrow> nat \<Rightarrow> outcome) \<Rightarrow> (string \<Rightarrow> rat option) \<Rightarrow> fetcher
     \<Rightarrow> (nat \<times> string \<times> string) list \<Rightarrow> series_map \<Rightarrow> error + series_map" where
  "run_tasks env parse_float self [] rs = Inr rs"
| "run_tasks env parse_float self ((i, url, p) # ts) rs =
     bindE (snd (get_single_pair (env i url) parse_float self p rs))
       (\<lambda>rs1. run_tasks env parse_float self ts rs1)"

definition fetch_pairs_klines ::
  "(nat \<Rightarrow> string \<Rightarrow> nat \<Rightarrow> outcome) \<Rightarrow> (string \<Rightarrow> rat option) \<Rightarrow> int
     \<Rightarrow> ((nat \<times> string \<times> string) list \<Rightarrow> (nat \<times> string \<times> string) list)
     \<Rightarrow> fetcher \<Rightarrow> error + (fetcher \<times> series_map)" where
  "fetch_pairs_klines env parse_float now_us sched self =
     bindE (get_backwards_range now_us self)
       (\<lambda>(from_t, to_t).
          let urls = create_klines_urls self from_t to_t;
              tasks = zip [0..<length (pairs self)] (zip urls (pairs self))
          in bindE (run_tasks env parse_float self (sched tasks) [])
               (\<lambda>rs. Inr (self\<lparr>responses := rs\<rparr>, rs)))"

section \<open>Series reconstructor (async_tools.py)\<close>

text \<open>
  The body of the inner loop of \<^verbatim>\<open>fill_missing_pairs\<close>, lines 144 to 148: one
  synthesized row, and the synthesized series from a donor series \<open>v\<close>.
\<close>

definition synth_row :: "json \<Rightarrow> nat \<times> json \<Rightarrow> error + json" where
  "synth_row eth_usdt ir =
     (case ir of (i, r) \<Rightarrow>
        bindE (py_getitem r 0) (\<lambda>r0.
        bindE (py_getitem eth_usdt i) (\<lambda>e.
        bindE (py_getitem e 0) (\<lambda>e0.
        bindE (py_truediv r0 e0) (\<lambda>q.
        bindE (py_getitem e 1) (\<lambda>e1.
        Inr (JArr [JNum (round9 q), e1])))))))"

definition combine :: "json \<Rightarrow> nat \<Rightarrow> json \<Rightarrow> error + json" where
  "combine eth_usdt q_l v =
     bindE (py_len v) (\<lambda>n.
     bindE (if q_l < n then py_slice_to v q_l else Inr v) (\<lambda>rows.
     bindE (py_iter rows) (\<lambda>rs.
     bindE (mapE (synth_row eth_usdt) (zip [0..<length rs] rs)) (\<lambda>base_eth.
     Inr (JArr base_eth)))))"

text \<open>
  The loop over \<^verbatim>\<open>missing_pairs\<close>: the donor is the first entry of the current map whose
  key contains the base and is not among the missing pairs.
\<close>

fun fill_loop :: "json \<Rightarrow> nat \<Rightarrow> string list \<Rightarrow> string list \<Rightarrow> series_map \<Rightarrow> error + series_map" where
  "fill_loop eth_usdt q_l missing_pairs [] rs = Inr rs"
| "fill_loop eth_usdt q_l missing_pairs (p # ps) rs =
     (let base = takeWhile (\<lambda>c. c \<noteq> CHR ''-'') p
      in case find (\<lambda>kv. is_substring base (fst kv) \<and> fst kv \<notin> set missing_pairs) rs of
           None \<Rightarrow> fill_loop eth_usdt q_l missing_pairs ps rs
         | Some (k, v) \<Rightarrow>
             bindE (combine eth_usdt q_l v)
               (\<lambda>base_eth. fill_loop eth_usdt q_l missing_pairs ps (dict_set p base_eth rs)))"

text \<open>\<^verbatim>\<open>fill_missing_pairs\<close>, on \<^verbatim>\<open>self.responses\<close>.\<close>

definition fill_missing_pairs :: "series_map \<Rightarrow> error + series_map" where
  "fill_missing_pairs rs =
     (case map_of rs ''ETH-USDT'' of
        None \<Rightarrow> Inl (KeyError ''ETH-USDT'')
      | Some eth_usdt \<Rightarrow>
          bindE (py_len eth_usdt) (\<lambda>q_l.
            let missing_pairs = map fst (filter (\<lambda>kv. \<not> json_truthy (snd kv)) rs)
            in fill_loop eth_usdt q_l missing_pairs missing_pairs rs))"

text \<open>\<^verbatim>\<open>fetch_and_fill_klines\<close>.\<close>

definition fetch_and_fill_klines ::
  "(nat \<Rightarrow> string \<Rightarrow> nat \<Rightarrow> outcome) \<Rightarrow> (string \<Rightarrow> rat option) \<Rightarrow> int
     \<Rightarrow> ((nat \<times> string \<times> string) list \<Rightarrow> (nat \<times> string \<times> string) list)
     \<Rightarrow> fetcher \<Rightarrow> error + (fetcher \<times> series_map)" where
  "fetch_and_fill_klines env parse_float now_us sched self =
     bindE (fetch_pairs_klines env parse_float now_us sched self)
       (\<lambda>(self1, rs). bindE (fill_missing_pairs rs) (\<lambda>rs1. Inr (self1\<lparr>responses := rs1\<rparr>, rs1)))"


section \<open>Notions used to state the properties\<close>


text \<open>
  The wait inserted before attempt \<open>k\<close>: the sleep that ends right before that attempt
  starts, if there is one.
\<close>

fun wait_before :: "event list \<Rightarrow> nat \<Rightarrow> rat option" where
  "wait_before (Sleep d # Attempt j # evs) k =
     (if j = k then Some d else wait_before (Attempt j # evs) k)"
| "wait_before (e # evs) k = wait_before evs k"
| "wait_before [] k = None"





text \<open>
  The classification of a response as the specification words it: a success status
  yields the decoded body, any other status raises the API error or, when the caller
  opted out, returns the raw body, and a body that does not decode raises the
  malformed-response error. A result is a decoded body or a raw one.
\<close>

datatype body = DecodedBody json | RawBody string

definition handle_response_spec :: "response \<Rightarrow> bool \<Rightarrow> error + body" where
  "handle_response_spec resp throw_exception =
     (if 200 \<le> status_code resp \<and> status_code resp < 300 then
        (case json_body resp of
           Some j \<Rightarrow> Inr (DecodedBody j)
         | None \<Rightarrow> Inl (BinanceRequestException (''Invalid Response: '' @ text_body resp)))
      else if throw_exception then Inl (BinanceAPIException resp)
      else Inr (RawBody (text_body resp)))"


text \<open>A stored value that is a sequence of rows, as the annotation of \<^verbatim>\<open>self.responses\<close> has it.\<close>

definition is_series :: "json \<Rightarrow> bool" where
  "is_series j = (case j of JArr rows \<Rightarrow> True | _ \<Rightarrow> False)"


section \<open>Properties of the dictionary operations\<close>

lemma map_of_dict_set: "map_of (dict_set k v d) = (map_of d)(k \<mapsto> v)"
  by (induction d) auto



lemma map_of_dict_del: "map_of (dict_del k d) k' = (if k' = k then None else map_of d k')"
  by (induction d) (auto simp: dict_del_def)

lemma map_of_dict_update_notin:
  "k \<notin> fst ` set r \<Longrightarrow> map_of (dict_update r d) k = map_of d k"
  by (induction r arbitrary: d) (auto simp: map_of_dict_set)

lemma map_of_dict_update_in:
  "distinct (map fst r) \<Longrightarrow> map_of r k = Some v \<Longrightarrow> map_of (dict_update r d) k = Some v"
proof (induction r arbitrary: d)
  case Nil
  then show ?case by simp
next
  case (Cons p r)
  show ?case
  proof (cases "fst p = k")
    case True
    with Cons.prems have "k \<notin> fst ` set r" and "snd p = v" by auto
    then show ?thesis using True by (simp add: map_of_dict_update_notin map_of_dict_set)
  next
    case False
    with Cons show ?thesis by (cases p) auto
  qed
qed



section \<open>Properties of the canonicalizer\<close>

lemma join_snoc: "join sep (xs @ [x]) = (if xs = [] then x else join sep xs @ sep @ x)"
  by (induction sep xs rule: join.induct) auto

lemma render_snoc:
  "render (ps @ [(k, v)]) = (if ps = [] then k @ ''='' @ py_str v else render ps @ ''&'' @ k @ ''='' @ py_str v)"
  by (simp add: render_def join_snoc)

lemma map_of_distinct_filter:
  "distinct (map fst d) \<Longrightarrow> map_of d k = Some v \<Longrightarrow> filter (\<lambda>p. fst p = k) d = [(k, v)]"
  by (induction d) (auto simp: rev_image_eqI filter_empty_conv  split: if_splits)

lemma filter_absent_key: "k \<notin> fst ` set d \<Longrightarrow> filter (\<lambda>p. fst p \<noteq> k) d = d"
  by (induction d) auto

lemma mset_split_key:
  "mset d = mset (filter (\<lambda>p. fst p \<noteq> k) d) + mset (filter (\<lambda>p. fst p = k) d)"
  by (induction d) auto

lemma order_params_no_signature:
  assumes "map_of data ''signature'' = None"
  shows "order_params data = sort_key fst data"
proof -
  from assms have "''signature'' \<notin> fst ` set data" by (simp add: map_of_eq_None_iff)
  then show ?thesis using assms by (simp add: order_params_def filter_absent_key)
qed

lemma order_params_signature:
  assumes "map_of data ''signature'' = Some v"
  shows "order_params data = sort_key fst (filter (\<lambda>p. fst p \<noteq> ''signature'') data) @ [(''signature'', v)]"
proof -
  from assms have "''signature'' \<in> fst ` set data" using map_of_eq_None_iff[of data "''signature''"] by simp
  then show ?thesis using assms by (simp add: order_params_def)
qed

lemma order_params_mset:
  assumes "distinct (map fst data)"
  shows "mset (order_params data) = mset data"
proof (cases "map_of data ''signature''")
  case None
  then show ?thesis by (simp add: order_params_no_signature)
next
  case (Some v)
  show ?thesis
    using map_of_distinct_filter[OF assms Some] mset_split_key[of data "''signature''"]
    by (simp add: order_params_signature[OF Some])
qed

text \<open>
  Claim C4. For a dictionary of parameters (distinct keys), the canonicalized list holds
  exactly the entries of the input, so every entry keeps its value. Without a
  \<^verbatim>\<open>signature\<close> entry the list is sorted by key. With one, wherever it stood in the
  input, that entry is the last of the list, the entries before it are sorted by key and
  none of them is a signature, and the rendered string ends with \<^verbatim>\<open>signature=<value>\<close>.
\<close>

theorem order_params_canonical:
  assumes "distinct (map fst data)"
  shows "mset (order_params data) = mset data \<and>
         (case map_of data ''signature'' of
            None \<Rightarrow> sorted (map fst (order_params data))
          | Some v \<Rightarrow> order_params data \<noteq> [] \<and> last (order_params data) = (''signature'', v) \<and>
                      sorted (map fst (butlast (order_params data))) \<and>
                      ''signature'' \<notin> fst ` set (butlast (order_params data)) \<and>
                      (\<exists>pre. render (order_params data) = pre @ ''signature='' @ py_str v))"
proof (cases "map_of data ''signature''")
  case None
  then show ?thesis using order_params_mset[OF assms]
    by (simp add: order_params_no_signature)
next
  case (Some v)
  note eq = order_params_signature[OF Some]
  have r: "\<exists>pre. render (order_params data) = pre @ ''signature='' @ py_str v"
  proof (cases "sort_key fst (filter (\<lambda>p. fst p \<noteq> ''signature'') data) = []")
    case True
    then have "render (order_params data) = [] @ ''signature='' @ py_str v"
      by (simp add: eq render_def)
    then show ?thesis by blast
  next
    case False
    then have "render (order_params data) =
        (render (sort_key fst (filter (\<lambda>p. fst p \<noteq> ''signature'') data)) @ ''&'') @ ''signature='' @ py_str v"
      by (simp add: eq render_snoc)
    then show ?thesis by blast
  qed
  have s: "''signature'' \<notin> fst ` set (butlast (order_params data))"
    by (auto simp: eq)
  show ?thesis using Some order_params_mset[OF assms] r s by (simp add: eq)
qed

theorem order_params_canonical_witness:
  "distinct (map fst [(''symbol'', VStr ''BTC''), (''signature'', VStr ''ab''), (''timestamp'', VInt 5)]) \<and>
   last (order_params [(''symbol'', VStr ''BTC''), (''signature'', VStr ''ab''), (''timestamp'', VInt 5)])
     = (''signature'', VStr ''ab'')"
  using order_params_canonical[of "[(''symbol'', VStr ''BTC''), (''signature'', VStr ''ab''), (''timestamp'', VInt 5)]"]
  by simp

section \<open>Properties of the response classification\<close>

text \<open>
  Claim C8, as amended. A success status with a body that decodes yields the decoded
  body. Another status raises the API error when exception-raising is enabled. When the
  caller opted out, another status yields the decoded body as well: the body is decoded,
  not returned raw. A body that does not decode raises the malformed-response error
  whenever the API error is not raised first.
\<close>

theorem handle_response_classes:
  "(200 \<le> status_code resp \<and> status_code resp < 300 \<and> json_body resp = Some j
      \<longrightarrow> handle_response resp throw_exception = Inr j) \<and>
   (\<not> (200 \<le> status_code resp \<and> status_code resp < 300) \<and> throw_exception
      \<longrightarrow> handle_response resp throw_exception = Inl (BinanceAPIException resp)) \<and>
   (\<not> (200 \<le> status_code resp \<and> status_code resp < 300) \<and> \<not> throw_exception \<and>
      json_body resp = Some j
      \<longrightarrow> handle_response resp throw_exception = Inr j) \<and>
   (json_body resp = None \<and>
      ((200 \<le> status_code resp \<and> status_code resp < 300) \<or> \<not> throw_exception)
      \<longrightarrow> handle_response resp throw_exception
            = Inl (BinanceRequestException (''Invalid Response: '' @ text_body resp)))"
  by (auto simp: handle_response_def)

theorem handle_response_classes_witness:
  "handle_response \<lparr>status_code = 200, text_body = ''{}'', json_body = Some (JObj [])\<rparr> True
     = Inr (JObj []) \<and>
   handle_response \<lparr>status_code = 400, text_body = ''{}'', json_body = Some (JObj [])\<rparr> True
     = Inl (BinanceAPIException \<lparr>status_code = 400, text_body = ''{}'', json_body = Some (JObj [])\<rparr>) \<and>
   handle_response \<lparr>status_code = 400, text_body = ''{}'', json_body = Some (JObj [])\<rparr> False
     = Inr (JObj []) \<and>
   handle_response \<lparr>status_code = 200, text_body = ''<html>'', json_body = None\<rparr> True
     = Inl (BinanceRequestException ''Invalid Response: <html>'')"
  using
    handle_response_classes [where throw_exception = True and j = "JObj []" and
      resp = "\<lparr>status_code = 200, text_body = ''{}'', json_body = Some (JObj [])\<rparr>"]
    handle_response_classes [where throw_exception = True and
      resp = "\<lparr>status_code = 400, text_body = ''{}'', json_body = Some (JObj [])\<rparr>"]
    handle_response_classes [where throw_exception = False and j = "JObj []" and
      resp = "\<lparr>status_code = 400, text_body = ''{}'', json_body = Some (JObj [])\<rparr>"]
    handle_response_classes [where throw_exception = True and
      resp = "\<lparr>status_code = 200, text_body = ''<html>'', json_body = None\<rparr>"]
  by simp

text \<open>
  With a status of 400, exception-raising switched off and the body \<^verbatim>\<open>{}\<close>, the code
  returns the decoded empty object where the specification's wording returns the raw
  text.
\<close>

theorem opted_out_returns_decoded_not_raw:
  "map_sum id DecodedBody
     (handle_response \<lparr>status_code = 400, text_body = ''{}'', json_body = Some (JObj [])\<rparr> False)
   \<noteq> handle_response_spec \<lparr>status_code = 400, text_body = ''{}'', json_body = Some (JObj [])\<rparr> False"
  by (simp add: handle_response_def handle_response_spec_def)

section \<open>Properties of the time window\<close>






section \<open>Properties of the series reconstructor\<close>

text \<open>
  Claim C1. The claim has the synthesized row hold the donor's close price over the
  reference's close price, with the reference's close time. On the rows that
  \<^verbatim>\<open>get_single_pair\<close> stores (open, high, low, close, close time), the code divides column
  0 by column 0 and pairs the quotient with column 1: with a reference row
  (2, 3, 1, 16, 2000) and a donor row (8, 9, 7, 4, 2000) the synthesized row is
  (8 / 2, 3) = (4, 3), and not (4 / 16, 2000) = (0.25, 2000).
\<close>

theorem fill_missing_pairs_divides_open_prices:
  "fill_missing_pairs
     [(''ETH-USDT'', JArr [JArr [JNum 2, JNum 3, JNum 1, JNum 16, JNum 2000]]),
      (''ADA-USDT'', JArr [JArr [JNum 8, JNum 9, JNum 7, JNum 4, JNum 2000]]),
      (''ADA-ETH'', JArr [])]
   = Inr [(''ETH-USDT'', JArr [JArr [JNum 2, JNum 3, JNum 1, JNum 16, JNum 2000]]),
      (''ADA-USDT'', JArr [JArr [JNum 8, JNum 9, JNum 7, JNum 4, JNum 2000]]),
      (''ADA-ETH'', JArr [JArr [JNum 4, JNum 3]])]"
  by (simp add: fill_missing_pairs_def bindE_def combine_def synth_row_def py_truediv_def
        round9_def round_half_even_def)

lemma round_half_even_example: "round_half_even (600000000 / 11) = 54545455"
proof -
  have "\<lfloor>(600000000 / 11 :: rat)\<rfloor> = 54545454" by (rule floor_unique) simp_all
  then show ?thesis by (simp add: round_half_even_def)
qed

text \<open>
  On rows of two columns (price, time) the arithmetic of the specification's example
  comes out: 5 / 100 and 6 / 110 rounded to 9 decimals, with the reference's times.
\<close>

lemma fill_missing_pairs_two_columns:
  "fill_missing_pairs
     [(''ETH-USDT'', JArr [JArr [JNum 100, JNum 1000], JArr [JNum 110, JNum 2000]]),
      (''ADA-USDT'', JArr [JArr [JNum 5, JNum 1000], JArr [JNum 6, JNum 2000]]),
      (''ADA-ETH'', JArr [])]
   = Inr [(''ETH-USDT'', JArr [JArr [JNum 100, JNum 1000], JArr [JNum 110, JNum 2000]]),
      (''ADA-USDT'', JArr [JArr [JNum 5, JNum 1000], JArr [JNum 6, JNum 2000]]),
      (''ADA-ETH'', JArr [JArr [JNum (5 / 100), JNum 1000],
                          JArr [JNum (54545455 / 1000000000), JNum 2000]])]"
  by (simp add: fill_missing_pairs_def bindE_def combine_def synth_row_def py_truediv_def
        round9_def round_half_even_example) (simp add: round_half_even_def)

lemma dict_set_same: "map_of d k = Some v \<Longrightarrow> dict_set k v d = d"
  by (induction d) (auto split: if_splits)

lemma combine_zero:
  assumes "is_series v"
  shows "combine eth 0 v = Inr (JArr [])"
proof -
  from assms obtain xs where v: "v = JArr xs" by (cases v) (auto simp: is_series_def)
  show ?thesis by (cases xs) (simp_all add: v combine_def bindE_def)
qed

lemma fill_loop_zero:
  assumes "list_all (\<lambda>kv. is_series (snd kv)) rs"
    and "\<forall>p \<in> set ps. map_of rs p = Some (JArr [])"
  shows "fill_loop eth 0 ms ps rs = Inr rs"
  using assms(2)
proof (induction ps)
  case Nil
  then show ?case by simp
next
  case (Cons p ps)
  let ?base = "takeWhile (\<lambda>c. c \<noteq> CHR ''-'') p"
  show ?case
  proof (cases "find (\<lambda>kv. is_substring ?base (fst kv) \<and> fst kv \<notin> set ms) rs")
    case None
    then show ?thesis using Cons by simp
  next
    case (Some kv)
    then have "kv \<in> set rs" by (auto simp: find_Some_iff)
    then have "is_series (snd kv)" using assms(1) by (auto simp: list_all_iff)
    then have c: "combine eth 0 (snd kv) = Inr (JArr [])" by (rule combine_zero)
    have "dict_set p (JArr []) rs = rs" using Cons.prems by (simp add: dict_set_same)
    then show ?thesis using Some c Cons by (cases kv) (simp add: bindE_def)
  qed
qed


lemma missing_values_empty:
  assumes "distinct (map fst rs)" "list_all (\<lambda>kv. is_series (snd kv)) rs"
    and "p \<in> set (map fst (filter (\<lambda>kv. \<not> json_truthy (snd kv)) rs))"
  shows "map_of rs p = Some (JArr [])"
proof -
  from assms(3) obtain v where in_rs: "(p, v) \<in> set rs" and falsy: "\<not> json_truthy v" by auto
  from in_rs assms(2) have "is_series v" by (auto simp: list_all_iff)
  with falsy have "v = JArr []" by (cases v) (auto simp: is_series_def)
  with in_rs assms(1) show ?thesis by simp
qed

text \<open>
  Claim C2, as amended. When the reference pair has no entry, the reconstruction raises
  \<^verbatim>\<open>KeyError\<close>. When its series is present but empty, nothing is raised: in a map of
  series the step runs with \<open>q = 0\<close>, every donor is cut to no rows, and the map is
  returned as it was.
\<close>

theorem fill_missing_pairs_reference:
  "(map_of rs ''ETH-USDT'' = None \<longrightarrow> fill_missing_pairs rs = Inl (KeyError ''ETH-USDT'')) \<and>
   (map_of rs ''ETH-USDT'' = Some (JArr []) \<and> distinct (map fst rs) \<and>
      list_all (\<lambda>kv. is_series (snd kv)) rs \<longrightarrow> fill_missing_pairs rs = Inr rs)"
proof (intro conjI impI)
  assume "map_of rs ''ETH-USDT'' = None"
  then show "fill_missing_pairs rs = Inl (KeyError ''ETH-USDT'')"
    by (simp add: fill_missing_pairs_def)
next
  assume a: "map_of rs ''ETH-USDT'' = Some (JArr []) \<and> distinct (map fst rs) \<and>
      list_all (\<lambda>kv. is_series (snd kv)) rs"
  let ?ms = "map fst (filter (\<lambda>kv. \<not> json_truthy (snd kv)) rs)"
  from a have d: "distinct (map fst rs)" and l: "list_all (\<lambda>kv. is_series (snd kv)) rs"
    by simp_all
  have "\<forall>p \<in> set ?ms. map_of rs p = Some (JArr [])"
  proof
    fix p assume "p \<in> set ?ms"
    then show "map_of rs p = Some (JArr [])" by (rule missing_values_empty[OF d l])
  qed
  then have "fill_loop (JArr []) 0 ?ms ?ms rs = Inr rs"
    by (rule fill_loop_zero[OF l])
  then show "fill_missing_pairs rs = Inr rs"
    using a by (simp add: fill_missing_pairs_def bindE_def)
qed

theorem fill_missing_pairs_reference_witness:
  "fill_missing_pairs [(''BTC-USDT'', JArr [])] = Inl (KeyError ''ETH-USDT'') \<and>
   fill_missing_pairs
     [(''ETH-USDT'', JArr []),
      (''ADA-USDT'', JArr [JArr [JNum 8, JNum 9, JNum 7, JNum 4, JNum 2000]]),
      (''ADA-ETH'', JArr [])]
   = Inr [(''ETH-USDT'', JArr []),
      (''ADA-USDT'', JArr [JArr [JNum 8, JNum 9, JNum 7, JNum 4, JNum 2000]]),
      (''ADA-ETH'', JArr [])]"
  using fill_missing_pairs_reference [of "[(''BTC-USDT'', JArr [])]"]
    fill_missing_pairs_reference [of "[(''ETH-USDT'', JArr []),
      (''ADA-USDT'', JArr [JArr [JNum 8, JNum 9, JNum 7, JNum 4, JNum 2000]]),
      (''ADA-ETH'', JArr [])]"]
  by (simp add: is_series_def)

text \<open>
  With the reference series present and empty, a donor and a missing pair, the step
  returns the map and raises nothing.
\<close>

theorem empty_reference_raises_nothing:
  "fill_missing_pairs
     [(''ETH-USDT'', JArr []),
      (''ADA-USDT'', JArr [JArr [JNum 8, JNum 9, JNum 7, JNum 4, JNum 2000]]),
      (''ADA-ETH'', JArr [])]
   = Inr [(''ETH-USDT'', JArr []),
      (''ADA-USDT'', JArr [JArr [JNum 8, JNum 9, JNum 7, JNum 4, JNum 2000]]),
      (''ADA-ETH'', JArr [])]"
  by (simp add: fill_missing_pairs_def bindE_def combine_def)


section \<open>Properties of the retry loop\<close>







lemma wait_before_attempt [simp]: "wait_before (Attempt j # evs) k = wait_before evs k"
  by (cases evs) simp_all

lemma wait_before_sleep_attempt:
  "wait_before (Sleep d # Attempt j # evs) k = (if j = k then Some d else wait_before evs k)"
  by simp

lemma wait_before_sleep_nil [simp]: "wait_before [Sleep d] k = None"
  by simp






section \<open>Properties of the batch fetch\<close>















section \<open>Properties of the request dispatcher\<close>


lemma dict_update_Nil_iff: "(if r \<noteq> [] then dict_update r d else d) = dict_update r d"
  by (cases r) simp_all











lemma bindE_InrE [consumes 1, case_names Inr]:
  assumes "bindE m f = Inr y"
  obtains x where "m = Inr x" and "f x = Inr y"
  using assms by (cases m) (simp_all add: bindE_def)

lemma pop_credentials_other:
  assumes "pop_credentials kwargs = (k, s, kwargs1)" and "q \<noteq> ''api_key''" and "q \<noteq> ''api_secret''"
  shows "map_of kwargs1 q = map_of kwargs q"
  using assms
  by (auto simp: pop_credentials_def Let_def map_of_dict_del split: option.splits)

lemma sign_data_timeout:
  assumes "sign_data mac now_ms self kwargs data al = Inr (kwargs', data')"
  shows "map_of kwargs' ''timeout'' = map_of kwargs ''timeout''"
proof -
  from assms obtain d sig where
    "kwargs' = dict_set ''data'' (VDict (dict_set ''signature'' (VStr sig)
                 (dict_set ''timestamp'' (VInt (now_ms + ts_offset self)) d))) kwargs"
    by (auto simp: sign_data_def bindE_def Let_def split: option.splits pyval.splits sum.splits)
  then show ?thesis by (simp add: map_of_dict_set)
qed

lemma order_data_timeout:
  assumes "order_data kwargs = Inr kwargs'"
  shows "map_of kwargs' ''timeout'' = map_of kwargs ''timeout''"
  using assms
  by (auto simp: order_data_def map_of_dict_set split: option.splits pyval.splits)

lemma to_params_timeout:
  assumes "to_params kwargs = Inr kwargs'"
  shows "map_of kwargs' ''timeout'' = map_of kwargs ''timeout''"
  using assms
  by (auto simp: to_params_def map_of_dict_set map_of_dict_del split: option.splits pyval.splits)

lemma tail_timeout:
  assumes "bindE (if signed then sign_data mac now_ms self1 kwargs4 data1 al else Inr (kwargs4, data1))
             (\<lambda>(kwargs5, data2).
                bindE (if truthy data2 then order_data kwargs5 else Inr kwargs5)
                  (\<lambda>kwargs6.
                bindE (if truthy data2 \<and> (method = ''get'' \<or> force_params)
                       then to_params kwargs6 else Inr kwargs6)
                  (\<lambda>kwargs7. Inr (F data2, kwargs7)))) = Inr (self', kw)"
  shows "map_of kw ''timeout'' = map_of kwargs4 ''timeout''"
  using assms
proof (cases rule: bindE_InrE)
  case (Inr x)
  obtain kwargs5 data2 where x: "x = (kwargs5, data2)" by (cases x)
  have 5: "map_of kwargs5 ''timeout'' = map_of kwargs4 ''timeout''"
    using Inr(1) by (auto simp: x sign_data_timeout split: if_splits)
  from Inr(2) have "bindE (if truthy data2 then order_data kwargs5 else Inr kwargs5)
                  (\<lambda>kwargs6.
                bindE (if truthy data2 \<and> (method = ''get'' \<or> force_params)
                       then to_params kwargs6 else Inr kwargs6)
                  (\<lambda>kwargs7. Inr (F data2, kwargs7))) = Inr (self', kw)"
    by (simp add: x)
  then show ?thesis
  proof (cases rule: bindE_InrE)
    case (Inr kwargs6)
    have 6: "map_of kwargs6 ''timeout'' = map_of kwargs5 ''timeout''"
      using Inr(1) by (auto simp: order_data_timeout split: if_splits)
    from Inr(2) show ?thesis
    proof (cases rule: bindE_InrE)
      case (Inr kwargs7)
      have 7: "map_of kwargs7 ''timeout'' = map_of kwargs6 ''timeout''"
        using Inr(1) by (auto simp: to_params_timeout split: if_splits)
      from Inr(2) have "kw = kwargs7" by simp
      with 5 6 7 show ?thesis by simp
    qed
  qed
qed

lemma merge_plain:
  assumes "merge_requests_params data kwargs = Inr (kwargs', data', al)"
    and "\<forall>d. data = VDict d \<longrightarrow> map_of d ''requests_params'' = None"
  shows "kwargs' = kwargs"
  using assms
  by (auto simp: merge_requests_params_def split: pyval.splits if_splits)

lemma merge_embedded:
  assumes "merge_requests_params (VDict d) kwargs = Inr (kwargs', data', al)"
    and "map_of d ''requests_params'' = Some (VDict r)"
    and "distinct (map fst r)" and "map_of r ''timeout'' = Some t"
  shows "map_of kwargs' ''timeout'' = Some t"
proof -
  from assms(2) have "d \<noteq> []" by auto
  with assms(1,2) have "kwargs' = dict_update r (dict_set ''data'' (VDict (dict_del ''requests_params'' d)) kwargs)"
    by (auto simp: merge_requests_params_def update_from_def bindE_def Let_def)
  then show ?thesis using assms(3,4) by (simp add: map_of_dict_update_in)
qed

lemma map_of_dict_update:
  "map_of (dict_update r d) k = (case map_of (rev r) k of Some v \<Rightarrow> Some v | None \<Rightarrow> map_of d k)"
proof (induction r arbitrary: d)
  case Nil
  then show ?case by simp
next
  case (Cons p r)
  show ?case
    by (cases "map_of (rev r) k") (simp_all add: Cons map_of_dict_set map_add_def)
qed

lemma timeout_after_update:
  "map_of (dict_update r (dict_set ''timeout'' v d)) ''timeout''
     = map_of (dict_update r [(''timeout'', v)]) ''timeout''"
  by (simp add: map_of_dict_update map_of_dict_set split: option.splits)

lemma request_prepare_timeout:
  assumes ok: "request_prepare mac now_ms self method signed force_params kwargs = Inr (self', kw)"
    and nd: "''data'' \<notin> fst ` set (case requests_params self of Some r \<Rightarrow> r | None \<Rightarrow> [])"
  shows "\<exists>kwargs3 kwargs4 data1 al.
           map_of kwargs3 ''data'' = map_of kwargs ''data'' \<and>
           map_of kwargs3 ''timeout''
             = map_of (dict_update (case requests_params self of Some r \<Rightarrow> r | None \<Rightarrow> [])
                        [(''timeout'', VInt 10)]) ''timeout'' \<and>
           merge_requests_params (case map_of kwargs ''data'' of Some d \<Rightarrow> d | None \<Rightarrow> VNone) kwargs3
             = Inr (kwargs4, data1, al) \<and>
           map_of kw ''timeout'' = map_of kwargs4 ''timeout''"
proof -
  have ns: "\<not> sigterm self"
  proof
    assume "sigterm self"
    then have "request_prepare mac now_ms self method signed force_params kwargs
                 = Inl AlreadyStoppedError"
      unfolding request_prepare_def by (rule if_P)
    with ok show False by simp
  qed
  obtain k s kwargs1 where pc: "pop_credentials kwargs = (k, s, kwargs1)"
    by (cases "pop_credentials kwargs") auto
  let ?self1 = "if truthy k \<and> truthy s then init_session (self\<lparr>api_key := k, api_secret := s\<rparr>) else self"
  let ?standing = "case requests_params ?self1 of Some rp \<Rightarrow> rp | None \<Rightarrow> []"
  have rp: "?standing = (case requests_params self of Some r \<Rightarrow> r | None \<Rightarrow> [])"
    by (simp add: init_session_def)
  let ?kwargs2 = "dict_set ''timeout'' (VInt 10) kwargs1"
  let ?kwargs3 = "dict_update ?standing ?kwargs2"
  let ?data = "case map_of ?kwargs3 ''data'' of Some d \<Rightarrow> d | None \<Rightarrow> VNone"
  let ?K = "\<lambda>(kwargs4, data1, aliased).
              bindE (if signed then sign_data mac now_ms ?self1 kwargs4 data1 aliased
                     else Inr (kwargs4, data1))
                (\<lambda>(kwargs5, data2).
              bindE (if truthy data2 then order_data kwargs5 else Inr kwargs5)
                (\<lambda>kwargs6.
              bindE (if truthy data2 \<and> (method = ''get'' \<or> force_params)
                     then to_params kwargs6 else Inr kwargs6)
                (\<lambda>kwargs7.
              Inr (if ''data'' \<in> set (map fst ?standing)
                   then ?self1\<lparr>requests_params := Some (dict_set ''data'' data2 ?standing)\<rparr>
                   else ?self1,
                   kwargs7))))"
  have eq: "request_prepare mac now_ms self method signed force_params kwargs
          = bindE (merge_requests_params ?data ?kwargs3) ?K"
    by (simp only: request_prepare_def pc Let_def prod.case dict_update_Nil_iff ns if_False)
  have ok1: "bindE (merge_requests_params ?data ?kwargs3) ?K = Inr (self', kw)"
    using ok by (simp only: eq)
  have d3: "map_of ?kwargs3 ''data'' = map_of kwargs ''data''"
    using nd pop_credentials_other[OF pc, of "''data''"]
    by (simp only: rp) (simp add: map_of_dict_update_notin map_of_dict_set)
  have "map_of ?kwargs3 ''timeout'' = map_of (dict_update ?standing [(''timeout'', VInt 10)]) ''timeout''"
    by (rule timeout_after_update)
  then have t3: "map_of ?kwargs3 ''timeout''
      = map_of (dict_update (case requests_params self of Some r \<Rightarrow> r | None \<Rightarrow> [])
                        [(''timeout'', VInt 10)]) ''timeout''"
    by (simp only: rp)
  from ok1 show ?thesis
  proof (cases rule: bindE_InrE)
    case (Inr x)
    obtain kwargs4 data1 al where x: "x = (kwargs4, data1, al)" by (cases x)
    from Inr(2) have "map_of kw ''timeout'' = map_of kwargs4 ''timeout''"
      unfolding x prod.case by (rule tail_timeout)
    moreover from Inr(1) have "merge_requests_params
        (case map_of kwargs ''data'' of Some d \<Rightarrow> d | None \<Rightarrow> VNone) ?kwargs3 = Inr (kwargs4, data1, al)"
      by (simp only: d3 x)
    ultimately show ?thesis using d3 t3 by (intro exI conjI)
  qed
qed

text \<open>
  Claim C10, as amended. Take a request that is dispatched, on a client whose standing
  \<^verbatim>\<open>requests_params\<close> hold no \<^verbatim>\<open>data\<close> entry. When the call's \<^verbatim>\<open>data\<close> carries no
  \<^verbatim>\<open>requests_params\<close> entry, the timeout handed to the transport is the \<^verbatim>\<open>timeout\<close> of the
  standing \<^verbatim>\<open>requests_params\<close> if there is one and 10 otherwise, whatever \<^verbatim>\<open>timeout\<close> the
  caller passed as a keyword argument. When the call's \<^verbatim>\<open>data\<close> carries a
  \<^verbatim>\<open>requests_params\<close> dictionary with a \<^verbatim>\<open>timeout\<close>, that timeout is the one handed to the
  transport.
\<close>

theorem timeout_default_and_overrides:
  assumes ok: "request_prepare mac now_ms self method signed force_params kwargs = Inr (self', kw)"
    and st: "standing = (case requests_params self of Some r \<Rightarrow> r | None \<Rightarrow> [])"
    and nd: "''data'' \<notin> fst ` set standing"
    and dist: "distinct (map fst standing)"
  shows "((\<forall>d. map_of kwargs ''data'' = Some (VDict d) \<longrightarrow> map_of d ''requests_params'' = None)
            \<longrightarrow> map_of kw ''timeout''
                  = (case map_of standing ''timeout'' of Some t \<Rightarrow> Some t | None \<Rightarrow> Some (VInt 10))) \<and>
         (\<forall>d r t. map_of kwargs ''data'' = Some (VDict d) \<and>
                  map_of d ''requests_params'' = Some (VDict r) \<and>
                  distinct (map fst r) \<and> map_of r ''timeout'' = Some t
            \<longrightarrow> map_of kw ''timeout'' = Some t)"
proof -
  let ?data = "case map_of kwargs ''data'' of Some d \<Rightarrow> d | None \<Rightarrow> VNone"
  have nd': "''data'' \<notin> fst ` set (case requests_params self of Some r \<Rightarrow> r | None \<Rightarrow> [])"
    using nd unfolding st .
  from request_prepare_timeout[OF ok nd'] obtain kwargs3 kwargs4 data1 al where
    t3: "map_of kwargs3 ''timeout'' = map_of (dict_update standing [(''timeout'', VInt 10)]) ''timeout''"
    and m: "merge_requests_params ?data kwargs3 = Inr (kwargs4, data1, al)"
    and t4: "map_of kw ''timeout'' = map_of kwargs4 ''timeout''"
    unfolding st by blast
  have s3: "map_of kwargs3 ''timeout''
              = (case map_of standing ''timeout'' of Some t \<Rightarrow> Some t | None \<Rightarrow> Some (VInt 10))"
  proof (cases "map_of standing ''timeout''")
    case None
    then have "''timeout'' \<notin> fst ` set standing" by (simp add: map_of_eq_None_iff)
    then show ?thesis using None t3 by (simp add: map_of_dict_update_notin)
  next
    case (Some t)
    then show ?thesis using t3 dist by (simp add: map_of_dict_update_in)
  qed
  have 1: "(\<forall>d. map_of kwargs ''data'' = Some (VDict d) \<longrightarrow> map_of d ''requests_params'' = None)
            \<longrightarrow> map_of kw ''timeout''
                  = (case map_of standing ''timeout'' of Some t \<Rightarrow> Some t | None \<Rightarrow> Some (VInt 10))"
  proof
    assume a: "\<forall>d. map_of kwargs ''data'' = Some (VDict d) \<longrightarrow> map_of d ''requests_params'' = None"
    have "\<forall>d. ?data = VDict d \<longrightarrow> map_of d ''requests_params'' = None"
    proof (intro allI impI)
      fix d assume "?data = VDict d"
      then have "map_of kwargs ''data'' = Some (VDict d)"
        by (cases "map_of kwargs ''data''") simp_all
      with a show "map_of d ''requests_params'' = None" by simp
    qed
    with m have "kwargs4 = kwargs3" by (rule merge_plain)
    with t4 s3 show "map_of kw ''timeout''
                  = (case map_of standing ''timeout'' of Some t \<Rightarrow> Some t | None \<Rightarrow> Some (VInt 10))"
      by simp
  qed
  have 2: "\<forall>d r t. map_of kwargs ''data'' = Some (VDict d) \<and>
                  map_of d ''requests_params'' = Some (VDict r) \<and>
                  distinct (map fst r) \<and> map_of r ''timeout'' = Some t
            \<longrightarrow> map_of kw ''timeout'' = Some t"
  proof (intro allI impI)
    fix d r t
    assume a: "map_of kwargs ''data'' = Some (VDict d) \<and>
                  map_of d ''requests_params'' = Some (VDict r) \<and>
                  distinct (map fst r) \<and> map_of r ''timeout'' = Some t"
    then have "?data = VDict d" by simp
    with m have m': "merge_requests_params (VDict d) kwargs3 = Inr (kwargs4, data1, al)" by simp
    from a have a2: "map_of d ''requests_params'' = Some (VDict r)"
      and a3: "distinct (map fst r)" and a4: "map_of r ''timeout'' = Some t"
      by blast+
    have "map_of kwargs4 ''timeout'' = Some t"
      by (rule merge_embedded[OF m' a2 a3 a4])
    with t4 show "map_of kw ''timeout'' = Some t" by simp
  qed
  from 1 2 show ?thesis by (rule conjI)
qed

theorem timeout_default_and_overrides_witness:
  "(\<exists>self' kw. request_prepare (\<lambda>secret msg. ''5f2c'') 1000
      \<lparr>api_key = VStr ''key'', api_secret = VStr ''secret'', requests_params = None,
       sigterm = False, ts_offset = 0, session_api_key = ''key''\<rparr>
      ''post'' False False
      [(''timeout'', VInt 3), (''data'', VDict [(''symbol'', VStr ''BTCUSDT'')])]
     = Inr (self', kw) \<and> map_of kw ''timeout'' = Some (VInt 10)) \<and>
   (\<exists>self' kw. request_prepare (\<lambda>secret msg. ''5f2c'') 1000
      \<lparr>api_key = VStr ''key'', api_secret = VStr ''secret'',
       requests_params = Some [(''timeout'', VInt 20)],
       sigterm = False, ts_offset = 0, session_api_key = ''key''\<rparr>
      ''post'' False False
      [(''timeout'', VInt 3), (''data'', VDict [(''symbol'', VStr ''BTCUSDT'')])]
     = Inr (self', kw) \<and> map_of kw ''timeout'' = Some (VInt 20)) \<and>
   (\<exists>self' kw. request_prepare (\<lambda>secret msg. ''5f2c'') 1000
      \<lparr>api_key = VStr ''key'', api_secret = VStr ''secret'',
       requests_params = Some [(''timeout'', VInt 20)],
       sigterm = False, ts_offset = 0, session_api_key = ''key''\<rparr>
      ''post'' False False
      [(''timeout'', VInt 3),
       (''data'', VDict [(''symbol'', VStr ''BTCUSDT''),
                         (''requests_params'', VDict [(''timeout'', VInt 30)])])]
     = Inr (self', kw) \<and> map_of kw ''timeout'' = Some (VInt 30))"
proof -
  let ?mac = "\<lambda>(secret :: string) (msg :: string). ''5f2c''"
  let ?c0 = "\<lparr>api_key = VStr ''key'', api_secret = VStr ''secret'', requests_params = None,
       sigterm = False, ts_offset = 0, session_api_key = ''key''\<rparr>"
  let ?c1 = "\<lparr>api_key = VStr ''key'', api_secret = VStr ''secret'',
       requests_params = Some [(''timeout'', VInt 20)],
       sigterm = False, ts_offset = 0, session_api_key = ''key''\<rparr>"
  let ?kw0 = "[(''timeout'', VInt 3), (''data'', VDict [(''symbol'', VStr ''BTCUSDT'')])]"
  let ?kw1 = "[(''timeout'', VInt 3),
       (''data'', VDict [(''symbol'', VStr ''BTCUSDT''),
                         (''requests_params'', VDict [(''timeout'', VInt 30)])])]"
  have ok0: "request_prepare ?mac 1000 ?c0 ''post'' False False ?kw0
               = Inr (?c0, [(''timeout'', VInt 10), (''data'', VPairs [(''symbol'', VStr ''BTCUSDT'')])])"
    by (simp add: request_prepare_def pop_credentials_def merge_requests_params_def
          order_data_def order_params_def bindE_def Let_def)
  have ok1: "request_prepare ?mac 1000 ?c1 ''post'' False False ?kw0
               = Inr (?c1, [(''timeout'', VInt 20), (''data'', VPairs [(''symbol'', VStr ''BTCUSDT'')])])"
    by (simp add: request_prepare_def pop_credentials_def merge_requests_params_def
          order_data_def order_params_def bindE_def Let_def)
  have ok2: "request_prepare ?mac 1000 ?c1 ''post'' False False ?kw1
               = Inr (?c1, [(''timeout'', VInt 30), (''data'', VPairs [(''symbol'', VStr ''BTCUSDT'')])])"
    by (simp add: request_prepare_def pop_credentials_def merge_requests_params_def
          update_from_def rebinds_def dict_del_def order_data_def order_params_def bindE_def
          Let_def)
  have w0: "map_of [(''timeout'', VInt 10), (''data'', VPairs [(''symbol'', VStr ''BTCUSDT'')])] ''timeout''
              = Some (VInt 10)"
    using timeout_default_and_overrides [OF ok0, of "[]"] by simp
  have w1: "map_of [(''timeout'', VInt 20), (''data'', VPairs [(''symbol'', VStr ''BTCUSDT'')])] ''timeout''
              = Some (VInt 20)"
    using timeout_default_and_overrides [OF ok1, of "[(''timeout'', VInt 20)]"] by simp
  have w2: "map_of [(''timeout'', VInt 30), (''data'', VPairs [(''symbol'', VStr ''BTCUSDT'')])] ''timeout''
              = Some (VInt 30)"
    using timeout_default_and_overrides [OF ok2, of "[(''timeout'', VInt 20)]"] by simp
  from ok0 ok1 ok2 w0 w1 w2 show ?thesis by blast
qed

text \<open>
  With no standing \<^verbatim>\<open>requests_params\<close> at all, a \<^verbatim>\<open>requests_params\<close> dictionary inside the
  call's \<^verbatim>\<open>data\<close> sets the dispatched timeout to 30.
\<close>

theorem embedded_requests_params_override_timeout:
  "request_prepare (\<lambda>secret msg. ''5f2c'') 1000
      \<lparr>api_key = VStr ''key'', api_secret = VStr ''secret'', requests_params = None,
       sigterm = False, ts_offset = 0, session_api_key = ''key''\<rparr>
      ''get'' False False
      [(''timeout'', VInt 3),
       (''data'', VDict [(''symbol'', VStr ''BTCUSDT''),
                         (''requests_params'', VDict [(''timeout'', VInt 30)])])]
   = Inr (\<lparr>api_key = VStr ''key'', api_secret = VStr ''secret'', requests_params = None,
           sigterm = False, ts_offset = 0, session_api_key = ''key''\<rparr>,
          [(''timeout'', VInt 30), (''params'', VStr ''symbol=BTCUSDT'')])"
  by (simp add: request_prepare_def pop_credentials_def merge_requests_params_def
        update_from_def rebinds_def dict_del_def order_data_def order_params_def to_params_def
        render_def py_str_def bindE_def Let_def)

end
